theory Spec2Isabelle
  imports Complex_Main
begin

section \<open>Python errors\<close>

text \<open>
  Every exception the modelled functions can raise is a value of \<open>py_error\<close>; a function that
  can raise returns \<open>py_error + 'a\<close> with \<open>Inl\<close> for the exception.  The name errors carry the
  name that could not be resolved.
\<close>

datatype py_error =
    ValueError
  | IndexError
  | RuntimeError
  | TypeError
  | AssertionError
  | NameError string
  | UnboundLocalError string

section \<open>combustion/util/plot.py\<close>

subsection \<open>Tensors of arbitrary rank\<close>







subsection \<open>alpha_blend\<close>




subsection \<open>apply_colormap\<close>









section \<open>combustion/nn/modules/fcos.py\<close>

subsection \<open>Feature maps\<close>

text \<open>
  The decoder works on feature maps of shape \<open>(B, C, H, W)\<close>: \<open>postprocess\<close> splits the rows
  of \<open>nonzero\<close> into exactly four index columns.  A feature map is its four extents together
  with the element at each index; elements are idealised as real numbers.
\<close>

record tensor4 =
  dim_b :: nat
  dim_c :: nat
  dim_h :: nat
  dim_w :: nat
  val :: "nat \<Rightarrow> nat \<Rightarrow> nat \<Rightarrow> nat \<Rightarrow> real"

definition sigmoid :: "real \<Rightarrow> real" where
  "sigmoid v = 1 / (1 + exp (- v))"

definition map_tensor :: "(real \<Rightarrow> real) \<Rightarrow> tensor4 \<Rightarrow> tensor4" where
  "map_tensor f t = t\<lparr>val := \<lambda>b c y x. f (val t b c y x)\<rparr>"

text \<open>
  \<open>t.expand_as(other)\<close>: every extent of \<open>t\<close> must equal that of \<open>other\<close> or be one; an
  extent of one is repeated.
\<close>

definition expandable :: "nat \<Rightarrow> nat \<Rightarrow> bool" where
  "expandable d d' \<longleftrightarrow> d = d' \<or> d = 1"

definition bidx :: "nat \<Rightarrow> nat \<Rightarrow> nat" where
  "bidx d i = (if d = 1 then 0 else i)"

definition expand_as :: "tensor4 \<Rightarrow> tensor4 \<Rightarrow> py_error + tensor4" where
  "expand_as t other =
     (if expandable (dim_b t) (dim_b other) \<and> expandable (dim_c t) (dim_c other) \<and>
         expandable (dim_h t) (dim_h other) \<and> expandable (dim_w t) (dim_w other)
      then Inr \<lparr>dim_b = dim_b other, dim_c = dim_c other, dim_h = dim_h other,
                dim_w = dim_w other,
                val = \<lambda>b c y x. val t (bidx (dim_b t) b) (bidx (dim_c t) c)
                                   (bidx (dim_h t) y) (bidx (dim_w t) x)\<rparr>
      else Inl RuntimeError)"

subsection \<open>FCOSDecoder.postprocess\<close>

text \<open>\<open>(level_cls >= threshold).nonzero(as_tuple=False)\<close>: the indices in row-major order.\<close>

definition positive_locations :: "tensor4 \<Rightarrow> real \<Rightarrow> (nat \<times> nat \<times> nat \<times> nat) list" where
  "positive_locations level_cls threshold =
     [(b, c, y, x). b \<leftarrow> [0..<dim_b level_cls], c \<leftarrow> [0..<dim_c level_cls],
                    y \<leftarrow> [0..<dim_h level_cls], x \<leftarrow> [0..<dim_w level_cls],
                    val level_cls b c y x \<ge> threshold]"

text \<open>
  \<open>int(stride / 2)\<close>: true division, then truncation towards zero (exact as long as the
  stride is representable as a float, that is, below \<open>2^53\<close> in magnitude).
\<close>

definition int_half :: "int \<Rightarrow> int" where
  "int_half stride = (if 0 \<le> stride then stride div 2 else - ((- stride) div 2))"

text \<open>
  One row of \<open>torch.cat([coords, raw_score, scaled_score, cls], dim=-1)\<close> for the positive
  location \<open>(b, c, y, x)\<close>: the base point \<open>(x, y) * stride + int(stride / 2)\<close> repeated
  twice, the offsets with the first two negated, clamped from below at 0 and the last two
  coordinates clamped from above at the image limits.
\<close>

definition box_coords ::
  "int \<Rightarrow> int \<Rightarrow> int \<Rightarrow> tensor4 \<Rightarrow> nat \<times> nat \<times> nat \<times> nat \<Rightarrow> real list" where
  "box_coords stride x_lim y_lim level_reg loc =
     (case loc of (b, c, y, x) \<Rightarrow>
        let base_x = real_of_int (int x * stride + int_half stride);
            base_y = real_of_int (int y * stride + int_half stride)
        in [max 0 (base_x + - val level_reg b 0 y x),
            max 0 (base_y + - val level_reg b 1 y x),
            min (real_of_int x_lim) (max 0 (base_x + val level_reg b 2 y x)),
            min (real_of_int y_lim) (max 0 (base_y + val level_reg b 3 y x))])"

text \<open>
  \<open>(level_cls * level_centerness.expand_as(level_cls)).sqrt_()\<close> at one location.  For a
  negative product the framework yields NaN; the reals have no such value, and no property
  below depends on the root of a negative number.
\<close>

definition scaled_score_at :: "tensor4 \<Rightarrow> tensor4 \<Rightarrow> nat \<times> nat \<times> nat \<times> nat \<Rightarrow> real" where
  "scaled_score_at level_cls cen loc =
     (case loc of (b, c, y, x) \<Rightarrow> sqrt (val level_cls b c y x * val cen b c y x))"

definition box_row ::
  "int \<Rightarrow> int \<Rightarrow> int \<Rightarrow> tensor4 \<Rightarrow> tensor4 \<Rightarrow> tensor4 \<Rightarrow> nat \<times> nat \<times> nat \<times> nat \<Rightarrow> real list" where
  "box_row stride x_lim y_lim level_cls level_reg cen loc =
     (case loc of (b, c, y, x) \<Rightarrow>
        box_coords stride x_lim y_lim level_reg loc @
        [val level_cls b c y x, scaled_score_at level_cls cen loc, real c])"

text \<open>\<open>if from_logits:\<close> the level's scores go through \<open>torch.sigmoid\<close>.\<close>

definition activate :: "bool \<Rightarrow> tensor4 \<Rightarrow> tensor4" where
  "activate from_logits t = (if from_logits then map_tensor sigmoid t else t)"

text \<open>Whether \<open>level_reg[batch, :, y, x]\<close> stays inside \<open>level_reg\<close>.\<close>

definition reg_in_range :: "tensor4 \<Rightarrow> nat \<times> nat \<times> nat \<times> nat \<Rightarrow> bool" where
  "reg_in_range level_reg loc =
     (case loc of (b, c, y, x) \<Rightarrow> b < dim_b level_reg \<and> y < dim_h level_reg \<and> x < dim_w level_reg)"

text \<open>
  The body of the loop over the FPN levels.  It yields the rows this level appends to
  \<open>boxes\<close>, each paired with its entry of \<open>batch_idx\<close>; a level without positive locations
  is skipped and yields nothing.
\<close>

definition level_boxes ::
  "int \<Rightarrow> int \<Rightarrow> int \<Rightarrow> real \<Rightarrow> bool \<Rightarrow> tensor4 \<Rightarrow> tensor4 \<Rightarrow> tensor4
     \<Rightarrow> py_error + (nat \<times> real list) list" where
  "level_boxes stride x_lim y_lim threshold from_logits level_cls0 level_reg level_centerness0 =
     (let level_cls = activate from_logits level_cls0;
          level_centerness = activate from_logits level_centerness0
      in case expand_as level_centerness level_cls of
           Inl e \<Rightarrow> Inl e
         | Inr cen \<Rightarrow>
            (let locs = positive_locations level_cls threshold
             in if locs = [] then Inr []
                else if \<not> list_all (reg_in_range level_reg) locs then Inl IndexError
                else if dim_c level_reg \<noteq> 4 then Inl RuntimeError
                else Inr (map (\<lambda>loc. (fst loc,
                            box_row stride x_lim y_lim level_cls level_reg cen loc)) locs)))"

text \<open>The loop itself: the levels in order, stopping at the first exception.\<close>

fun levels_loop ::
  "int \<Rightarrow> int \<Rightarrow> real \<Rightarrow> bool \<Rightarrow> (int \<times> tensor4 \<times> tensor4 \<times> tensor4) list
     \<Rightarrow> py_error + (nat \<times> real list) list" where
  "levels_loop x_lim y_lim threshold from_logits [] = Inr []"
| "levels_loop x_lim y_lim threshold from_logits ((stride, c, r, cen) # rest) =
     (case level_boxes stride x_lim y_lim threshold from_logits c r cen of
        Inl e \<Rightarrow> Inl e
      | Inr rows \<Rightarrow>
         (case levels_loop x_lim y_lim threshold from_logits rest of
            Inl e \<Rightarrow> Inl e
          | Inr others \<Rightarrow> Inr (rows @ others)))"

text \<open>Python's \<open>zip\<close> of four sequences.\<close>

definition zip4 :: "'a list \<Rightarrow> 'b list \<Rightarrow> 'c list \<Rightarrow> 'd list \<Rightarrow> ('a \<times> 'b \<times> 'c \<times> 'd) list" where
  "zip4 ws xs ys zs = zip ws (zip xs (zip ys zs))"

text \<open>\<open>.long()\<close>: conversion of a float to an integer truncates towards zero.\<close>

definition to_long :: "real \<Rightarrow> int" where
  "to_long v = (if 0 \<le> v then \<lfloor>v\<rfloor> else \<lceil>v\<rceil>)"

text \<open>
  The new ``class id'' that distinguishes batch and class:
  \<open>(batch_idx * num_classes + cls.view_as(batch_idx)).view(-1).long()\<close>.
\<close>

definition nms_idx :: "nat \<Rightarrow> (nat \<times> real list) list \<Rightarrow> int list" where
  "nms_idx num_classes rows =
     map (\<lambda>(batch, row). to_long (real batch * real num_classes + row ! 6)) rows"

text \<open>
  \<open>torchvision.ops.batched_nms(boxes, scores, idxs, iou_threshold)\<close> belongs to torchvision
  and is a parameter of the model: it returns the indices of the rows it keeps.
\<close>

type_synonym batched_nms_fn = "real list list \<Rightarrow> real list \<Rightarrow> int list \<Rightarrow> real \<Rightarrow> nat list"

text \<open>\<open>boxes[keep, :]\<close> and \<open>batch_idx[keep, :]\<close>: an index out of range raises \<open>IndexError\<close>.\<close>

definition select_rows :: "nat list \<Rightarrow> 'a list \<Rightarrow> py_error + 'a list" where
  "select_rows keep rows =
     (if list_all (\<lambda>k. k < length rows) keep then Inr (map (\<lambda>k. rows ! k) keep)
      else Inl IndexError)"

definition apply_nms ::
  "batched_nms_fn \<Rightarrow> nat \<Rightarrow> real \<Rightarrow> (nat \<times> real list) list \<Rightarrow> py_error + (nat \<times> real list) list" where
  "apply_nms batched_nms num_classes nms_threshold rows =
     (let coords = map (\<lambda>(batch, row). take 4 row) rows;
          scaled_score = map (\<lambda>(batch, row). row ! 5) rows;
          idx = nms_idx num_classes rows;
          keep = batched_nms coords scaled_score idx nms_threshold
      in select_rows keep rows)"

text \<open>\<open>boxes[..., (0, 1, 2, 3, 4, 6)]\<close> or \<open>boxes[..., (0, 1, 2, 3, 5, 6)]\<close>.\<close>

definition final_columns :: "bool \<Rightarrow> real list \<Rightarrow> real list" where
  "final_columns use_raw_score row =
     map (\<lambda>j. row ! j) (if use_raw_score then [0, 1, 2, 3, 4, 6] else [0, 1, 2, 3, 5, 6])"

text \<open>
  Modelled from the spec: \<open>combustion.vision.batch_box_target\<close> is imported by \<open>fcos.py\<close> but
  its source is not among the sources modelled here.  Following the description
  ``re-packing into a padded per-image box tensor'', it stacks the per-image box lists into
  one \<open>(B, N, 6)\<close> tensor, \<open>N\<close> being the largest number of boxes of an image, and fills the
  images with fewer boxes with rows of \<open>pad_value\<close>.
\<close>

definition batch_box_target :: "real list list list \<Rightarrow> real \<Rightarrow> real list list list" where
  "batch_box_target target pad_value =
     (let max_boxes = fold max (map length target) 0
      in map (\<lambda>elem. elem @ replicate (max_boxes - length elem) (replicate 6 pad_value)) target)"

text \<open>\<open>[boxes[(batch_idx == i).view(-1), :] for i in range(batch_size)]\<close>.\<close>

definition split_by_image :: "nat \<Rightarrow> (nat \<times> real list) list \<Rightarrow> real list list list" where
  "split_by_image batch_size rows =
     map (\<lambda>i. map snd (filter (\<lambda>(batch, row). batch = i) rows)) [0..<batch_size]"

definition postprocess ::
  "batched_nms_fn \<Rightarrow> tensor4 list \<Rightarrow> tensor4 list \<Rightarrow> tensor4 list \<Rightarrow> int list \<Rightarrow> real \<Rightarrow> real
     \<Rightarrow> bool \<Rightarrow> real option \<Rightarrow> bool \<Rightarrow> py_error + real list list list" where
  "postprocess batched_nms cls reg centerness strides threshold0 pad_value from_logits
       nms_threshold0 use_raw_score =
     (let threshold = \<bar>threshold0\<bar>;
          nms_threshold = map_option abs nms_threshold0
      in if length strides \<noteq> length cls then Inl AssertionError
         else if length strides \<noteq> length reg then Inl AssertionError
         else if length strides \<noteq> length centerness then Inl AssertionError
         else if cls = [] then Inl IndexError
         else
           (let y_lim = int (dim_h (cls ! 0)) * strides ! 0;
                x_lim = int (dim_w (cls ! 0)) * strides ! 0;
                batch_size = dim_b (cls ! 0);
                num_classes = dim_c (cls ! 0)
            in case levels_loop x_lim y_lim threshold from_logits
                      (zip4 strides cls reg centerness) of
                 Inl e \<Rightarrow> Inl e
               | Inr rows \<Rightarrow>
                  if rows = [] then Inl (UnboundLocalError ''coords'')
                  else
                    (case (case nms_threshold of
                             None \<Rightarrow> Inr rows
                           | Some t \<Rightarrow> apply_nms batched_nms num_classes t rows) of
                       Inl e \<Rightarrow> Inl e
                     | Inr kept \<Rightarrow>
                        Inr (batch_box_target
                               (split_by_image batch_size
                                  (map (\<lambda>(batch, row). (batch, final_columns use_raw_score row)) kept))
                               pad_value))))"

subsection \<open>A small input\<close>

text \<open>
  One FPN level with a single location: classification score 1, centerness 1 and the
  regression offsets \<open>(l, t, r, b) = (0, 1, 2, 3)\<close>; and a \<open>batched_nms\<close> that keeps every box.
\<close>

definition example_cls :: tensor4 where
  "example_cls = \<lparr>dim_b = 1, dim_c = 1, dim_h = 1, dim_w = 1, val = \<lambda>b c y x. 1\<rparr>"

definition example_reg :: tensor4 where
  "example_reg = \<lparr>dim_b = 1, dim_c = 4, dim_h = 1, dim_w = 1, val = \<lambda>b c y x. real c\<rparr>"

definition example_centerness :: tensor4 where
  "example_centerness = \<lparr>dim_b = 1, dim_c = 1, dim_h = 1, dim_w = 1, val = \<lambda>b c y x. 1\<rparr>"

definition keep_all :: batched_nms_fn where
  "keep_all boxes scores idxs iou_threshold = [0..<length boxes]"

text \<open>The same level with classification score 0: no location reaches a positive threshold.\<close>

definition example_zero_cls :: tensor4 where
  "example_zero_cls = \<lparr>dim_b = 1, dim_c = 1, dim_h = 1, dim_w = 1, val = \<lambda>b c y x. 0\<rparr>"





subsection \<open>BaseFCOSDecoder.reduce_heatmaps\<close>

text \<open>
  The body of \<open>reduce_heatmaps\<close> reads three names that are neither parameters nor local
  variables: \<open>F\<close> (for \<open>F.interpolate\<close>), \<open>combine\<close> and \<open>top\<close>.  Python looks them up in the
  module's global scope when the statement runs and raises \<open>NameError\<close> when they are not
  bound.  The record says what each name is bound to, if to anything.
\<close>

record fcos_scope =
  name_F_interpolate :: "(tensor4 \<Rightarrow> nat \<times> nat \<Rightarrow> string \<Rightarrow> py_error + tensor4) option"
  name_combine :: "(tensor4 \<Rightarrow> tensor4 \<Rightarrow> tensor4) option"
  name_top :: "tensor4 option"

text \<open>
  The global scope of \<open>fcos.py\<close>: its imports bind \<open>ABC\<close>, \<open>abstractclassmethod\<close>, \<open>Callable\<close>,
  \<open>List\<close>, \<open>Optional\<close>, \<open>Tuple\<close>, \<open>torch\<close>, \<open>nn\<close>, \<open>Tensor\<close>, \<open>batched_nms\<close>,
  \<open>batch_box_target\<close> and \<open>SharedDecoder2d\<close>, its class statements \<open>BaseFCOSDecoder\<close> and
  \<open>FCOSDecoder\<close>; none of the three names is among them.
\<close>

definition fcos_module_scope :: fcos_scope where
  "fcos_module_scope = \<lparr>name_F_interpolate = None, name_combine = None, name_top = None\<rparr>"

text \<open>
  The loop \<open>for i in range(len(heatmap) - 1)\<close>: \<open>result\<close> is the loop's state, the list holds
  \<open>heatmap[i + 1]\<close> for the remaining \<open>i\<close>.
\<close>

fun reduce_loop :: "fcos_scope \<Rightarrow> string \<Rightarrow> tensor4 \<Rightarrow> tensor4 list \<Rightarrow> py_error + tensor4" where
  "reduce_loop scope mode result [] = Inr result"
| "reduce_loop scope mode result (level # rest) =
     (case name_F_interpolate scope of
        None \<Rightarrow> Inl (NameError ''F'')
      | Some interpolate \<Rightarrow>
         (case interpolate level (dim_h result, dim_w result) mode of
            Inl e \<Rightarrow> Inl e
          | Inr current_level \<Rightarrow>
             (case name_combine scope of
                None \<Rightarrow> Inl (NameError ''combine'')
              | Some combine \<Rightarrow> reduce_loop scope mode (combine current_level result) rest)))"

definition reduce_heatmaps ::
  "fcos_scope \<Rightarrow> tensor4 list \<Rightarrow> (tensor4 \<Rightarrow> tensor4 \<Rightarrow> tensor4) \<Rightarrow> string \<Rightarrow> py_error + tensor4" where
  "reduce_heatmaps scope heatmap reduction mode =
     (case heatmap of
        [] \<Rightarrow> Inl IndexError
      | first # rest \<Rightarrow>
         (case reduce_loop scope mode first rest of
            Inl e \<Rightarrow> Inl e
          | Inr result \<Rightarrow>
             (case name_top scope of
                None \<Rightarrow> Inl (NameError ''top'')
              | Some top_value \<Rightarrow> Inr top_value)))"

subsection \<open>BaseFCOSDecoder and FCOSDecoder\<close>

text \<open>
  An activation module is modelled by the function it applies to every element and by its
  \<open>inplace\<close> flag: an in-place module overwrites the tensor it is given and returns it.
\<close>

record activation =
  act :: "real \<Rightarrow> real"
  inplace :: bool

definition ReLU :: "bool \<Rightarrow> activation" where
  "ReLU inplace_flag = \<lparr>act = max 0, inplace = inplace_flag\<rparr>"

definition Identity :: activation where
  "Identity = \<lparr>act = (\<lambda>v. v), inplace = False\<rparr>"

text \<open>
  \<open>SharedDecoder2d\<close> is defined in \<open>fpn_shared_head.py\<close>, whose source is not among
  the sources modelled here.
  It is a parameter of the model: a function from its constructor arguments and the FPN
  feature maps to one output per level.
\<close>

record shared_decoder_args =
  sd_in_channels :: nat
  sd_out_channels :: nat
  sd_num_convs :: nat
  sd_strides :: "int list option"
  sd_activation :: activation
  sd_final_activation :: activation
  sd_bn_momentum :: real
  sd_bn_epsilon :: real

type_synonym shared_decoder = "shared_decoder_args \<Rightarrow> tensor4 list \<Rightarrow> py_error + tensor4 list"

record fcos_decoder =
  cls_head :: "tensor4 list \<Rightarrow> py_error + tensor4 list"
  reg_head :: "tensor4 list \<Rightarrow> py_error + tensor4 list"
  reg_activation :: activation

definition BaseFCOSDecoder ::
  "shared_decoder \<Rightarrow> nat \<Rightarrow> nat \<Rightarrow> nat \<Rightarrow> nat \<Rightarrow> int list option \<Rightarrow> activation \<Rightarrow> activation
     \<Rightarrow> real \<Rightarrow> real \<Rightarrow> fcos_decoder" where
  "BaseFCOSDecoder SharedDecoder2d in_channels num_classes num_regressions num_convs strides
       activation reg_act bn_momentum bn_epsilon =
     \<lparr>cls_head = SharedDecoder2d
        \<lparr>sd_in_channels = in_channels, sd_out_channels = num_classes, sd_num_convs = num_convs,
         sd_strides = strides, sd_activation = activation, sd_final_activation = Identity,
         sd_bn_momentum = bn_momentum, sd_bn_epsilon = bn_epsilon\<rparr>,
      reg_head = SharedDecoder2d
        \<lparr>sd_in_channels = in_channels, sd_out_channels = num_regressions + 1,
         sd_num_convs = num_convs, sd_strides = strides, sd_activation = activation,
         sd_final_activation = Identity, sd_bn_momentum = bn_momentum,
         sd_bn_epsilon = bn_epsilon\<rparr>,
      reg_activation = reg_act\<rparr>"

definition FCOSDecoder ::
  "shared_decoder \<Rightarrow> nat \<Rightarrow> nat \<Rightarrow> nat \<Rightarrow> int list option \<Rightarrow> activation \<Rightarrow> real \<Rightarrow> real
     \<Rightarrow> fcos_decoder" where
  "FCOSDecoder SharedDecoder2d in_channels num_classes num_convs strides activation bn_momentum
       bn_epsilon =
     BaseFCOSDecoder SharedDecoder2d in_channels num_classes 4 num_convs strides activation
       (ReLU True) bn_momentum bn_epsilon"

text \<open>\<open>layer[..., lo:hi, :, :]\<close>: the channels from \<open>lo\<close> up to, not including, \<open>hi\<close>.\<close>

definition slice_channels :: "tensor4 \<Rightarrow> nat \<Rightarrow> nat \<Rightarrow> tensor4" where
  "slice_channels t lo hi =
     \<lparr>dim_b = dim_b t, dim_c = min hi (dim_c t) - lo, dim_h = dim_h t, dim_w = dim_w t,
      val = \<lambda>b c y x. val t b (c + lo) y x\<rparr>"

text \<open>Writing through the view \<open>layer[..., lo:, :, :]\<close>: the channels below \<open>lo\<close> stay.\<close>

definition write_channels :: "tensor4 \<Rightarrow> nat \<Rightarrow> tensor4 \<Rightarrow> tensor4" where
  "write_channels layer lo t =
     layer\<lparr>val := \<lambda>b c y x. if lo \<le> c then val t b (c - lo) y x else val layer b c y x\<rparr>"

text \<open>
  What \<open>forward\<close> does with one output \<open>layer\<close> of the regression head.  The centerness
  \<open>layer[..., 0:1, :, :]\<close> is a view of \<open>layer\<close>, taken first; then \<open>reg_activation\<close> is applied
  to the view \<open>layer[..., 1:, :, :]\<close>, which for an in-place module overwrites channels
  \<open>1:\<close> of \<open>layer\<close> itself.  The pair holds the centerness and the regression map as the
  caller sees them, that is, read from \<open>layer\<close> after the activation has run.
\<close>

definition split_layer :: "activation \<Rightarrow> tensor4 \<Rightarrow> tensor4 \<times> tensor4" where
  "split_layer a layer =
     (let activated = map_tensor (act a) (slice_channels layer 1 (dim_c layer));
          stored = (if inplace a then write_channels layer 1 activated else layer)
      in (slice_channels stored 0 1,
          if inplace a then slice_channels stored 1 (dim_c stored) else activated))"

definition forward ::
  "fcos_decoder \<Rightarrow> tensor4 list \<Rightarrow> py_error + (tensor4 list \<times> tensor4 list \<times> tensor4 list)" where
  "forward decoder fpn =
     (case cls_head decoder fpn of
        Inl e \<Rightarrow> Inl e
      | Inr cls \<Rightarrow>
         (case reg_head decoder fpn of
            Inl e \<Rightarrow> Inl e
          | Inr layers \<Rightarrow>
             Inr (cls,
                  map (\<lambda>layer. snd (split_layer (reg_activation decoder) layer)) layers,
                  map (\<lambda>layer. fst (split_layer (reg_activation decoder) layer)) layers)))"

text \<open>
  A stand-in for \<open>SharedDecoder2d\<close>: at every level \<open>out_channels\<close> channels, channel \<open>c\<close>
  holding \<open>c - 1\<close> everywhere.
\<close>

definition example_head :: shared_decoder where
  "example_head args fpn =
     Inr (map (\<lambda>t. \<lparr>dim_b = dim_b t, dim_c = sd_out_channels args, dim_h = dim_h t,
                     dim_w = dim_w t, val = \<lambda>b c y x. real c - 1\<rparr>) fpn)"

section \<open>combustion/nn/modules/global_attention_upsample.py\<close>

subsection \<open>The framework layers used by AttentionUpsample2d\<close>

text \<open>
  Elementwise arithmetic on two feature maps broadcasts: two extents are compatible when
  they are equal or one of them is one, and the extent of one is repeated.
\<close>

definition broadcast_dim :: "nat \<Rightarrow> nat \<Rightarrow> nat option" where
  "broadcast_dim d d' =
     (if d = d' then Some d else if d = 1 then Some d' else if d' = 1 then Some d else None)"

definition broadcast2 :: "(real \<Rightarrow> real \<Rightarrow> real) \<Rightarrow> tensor4 \<Rightarrow> tensor4 \<Rightarrow> py_error + tensor4" where
  "broadcast2 f s t =
     (case (broadcast_dim (dim_b s) (dim_b t), broadcast_dim (dim_c s) (dim_c t),
            broadcast_dim (dim_h s) (dim_h t), broadcast_dim (dim_w s) (dim_w t)) of
        (Some n, Some c, Some h, Some w) \<Rightarrow>
          Inr \<lparr>dim_b = n, dim_c = c, dim_h = h, dim_w = w,
               val = \<lambda>b c y x.
                 f (val s (bidx (dim_b s) b) (bidx (dim_c s) c) (bidx (dim_h s) y) (bidx (dim_w s) x))
                   (val t (bidx (dim_b t) b) (bidx (dim_c t) c) (bidx (dim_h t) y) (bidx (dim_w t) x))\<rparr>
      | _ \<Rightarrow> Inl RuntimeError)"

text \<open>
  \<open>nn.Conv2d(in_channels, out_channels, 1)\<close>, a pointwise convolution with its learned weight
  and bias: it rejects an input with another number of channels.
\<close>

record conv_params =
  weight :: "nat \<Rightarrow> nat \<Rightarrow> real"
  bias :: "nat \<Rightarrow> real"

definition conv_out :: "nat \<Rightarrow> nat \<Rightarrow> conv_params \<Rightarrow> tensor4 \<Rightarrow> tensor4" where
  "conv_out in_channels out_channels p t =
     \<lparr>dim_b = dim_b t, dim_c = out_channels, dim_h = dim_h t, dim_w = dim_w t,
      val = \<lambda>b out y x. (\<Sum>c < in_channels. weight p out c * val t b c y x) + bias p out\<rparr>"

definition pointwise_conv :: "nat \<Rightarrow> nat \<Rightarrow> conv_params \<Rightarrow> tensor4 \<Rightarrow> py_error + tensor4" where
  "pointwise_conv in_channels out_channels p t =
     (if dim_c t \<noteq> in_channels then Inl RuntimeError
      else Inr (conv_out in_channels out_channels p t))"

text \<open>\<open>nn.AdaptiveAvgPool2d(1)\<close>: the mean over the spatial extents, which must not be empty.\<close>

definition pool_out :: "tensor4 \<Rightarrow> tensor4" where
  "pool_out t =
     \<lparr>dim_b = dim_b t, dim_c = dim_c t, dim_h = 1, dim_w = 1,
      val = \<lambda>b c y x. (\<Sum>i < dim_h t. \<Sum>j < dim_w t. val t b c i j) / real (dim_h t * dim_w t)\<rparr>"

definition adaptive_avg_pool :: "tensor4 \<Rightarrow> py_error + tensor4" where
  "adaptive_avg_pool t =
     (if dim_c t = 0 \<or> dim_h t = 0 \<or> dim_w t = 0 then Inl RuntimeError else Inr (pool_out t))"

text \<open>
  \<open>F.interpolate(t, size, mode="bilinear", align_corners=False)\<close>.  The source coordinate of
  an output index is \<open>(d + 0.5) * in_size / out_size - 0.5\<close>, not below 0; the value is
  interpolated between the source index below it and the next one, if there is a next one.
\<close>

definition source_index :: "nat \<Rightarrow> nat \<Rightarrow> nat \<Rightarrow> real" where
  "source_index in_size out_size d =
     max 0 ((real d + 1 / 2) * (real in_size / real out_size) - 1 / 2)"

definition index0 :: "nat \<Rightarrow> nat \<Rightarrow> nat \<Rightarrow> nat" where
  "index0 in_size out_size d = nat \<lfloor>source_index in_size out_size d\<rfloor>"

definition index1 :: "nat \<Rightarrow> nat \<Rightarrow> nat \<Rightarrow> nat" where
  "index1 in_size out_size d =
     index0 in_size out_size d + (if index0 in_size out_size d < in_size - 1 then 1 else 0)"

definition lambda1 :: "nat \<Rightarrow> nat \<Rightarrow> nat \<Rightarrow> real" where
  "lambda1 in_size out_size d =
     source_index in_size out_size d - real (index0 in_size out_size d)"

definition bilinear :: "tensor4 \<Rightarrow> nat \<times> nat \<Rightarrow> tensor4" where
  "bilinear t out_size =
     (case out_size of (oh, ow) \<Rightarrow>
        \<lparr>dim_b = dim_b t, dim_c = dim_c t, dim_h = oh, dim_w = ow,
         val = \<lambda>b c y x.
           (1 - lambda1 (dim_h t) oh y) *
             ((1 - lambda1 (dim_w t) ow x) *
                val t b c (index0 (dim_h t) oh y) (index0 (dim_w t) ow x) +
              lambda1 (dim_w t) ow x *
                val t b c (index0 (dim_h t) oh y) (index1 (dim_w t) ow x)) +
           lambda1 (dim_h t) oh y *
             ((1 - lambda1 (dim_w t) ow x) *
                val t b c (index1 (dim_h t) oh y) (index0 (dim_w t) ow x) +
              lambda1 (dim_w t) ow x *
                val t b c (index1 (dim_h t) oh y) (index1 (dim_w t) ow x))\<rparr>)"

definition interpolate :: "tensor4 \<Rightarrow> nat \<times> nat \<Rightarrow> py_error + tensor4" where
  "interpolate t out_size =
     (if dim_h t = 0 \<or> dim_w t = 0 \<or> fst out_size = 0 \<or> snd out_size = 0 then Inl RuntimeError
      else Inr (bilinear t out_size))"

subsection \<open>AttentionUpsample2d\<close>

text \<open>
  The module after construction.  The low-level path
  \<open>Sequential(DynamicSamePad(Conv2d(low_filters, output_filters, kernel_size, bias=False)),
  BatchNorm2d(output_filters), low_activation)\<close> involves \<open>DynamicSamePad\<close>, whose source is
  not among the sources modelled here, and batch statistics; it is a parameter of the model.  The
  high-level path is \<open>AdaptiveAvgPool2d(1)\<close> or the identity, a pointwise convolution and
  the elementwise \<open>high_activation\<close>.  \<open>high_level_conv\<close> is a pointwise convolution when
  \<open>high_filters != output_filters\<close> and the identity (\<open>None\<close>) otherwise.
\<close>

record attention_upsample =
  gau_pool :: bool
  low_level_path :: "tensor4 \<Rightarrow> py_error + tensor4"
  high_filters :: nat
  output_filters :: nat
  high_path_conv :: conv_params
  high_activation :: "real \<Rightarrow> real"
  high_level_conv :: "conv_params option"

definition AttentionUpsample2d ::
  "(tensor4 \<Rightarrow> py_error + tensor4) \<Rightarrow> conv_params \<Rightarrow> conv_params \<Rightarrow> nat \<Rightarrow> nat \<Rightarrow> bool
     \<Rightarrow> (real \<Rightarrow> real) \<Rightarrow> attention_upsample" where
  "AttentionUpsample2d low_path path_conv level_conv high_filters0 output_filters0 pool
       high_act =
     \<lparr>gau_pool = pool, low_level_path = low_path, high_filters = high_filters0,
      output_filters = output_filters0, high_path_conv = path_conv, high_activation = high_act,
      high_level_conv = (if high_filters0 \<noteq> output_filters0 then Some level_conv else None)\<rparr>"

definition high_level_path :: "attention_upsample \<Rightarrow> tensor4 \<Rightarrow> py_error + tensor4" where
  "high_level_path m t =
     (case (if gau_pool m then adaptive_avg_pool t else Inr t) of
        Inl e \<Rightarrow> Inl e
      | Inr pooled \<Rightarrow>
         (case pointwise_conv (high_filters m) (output_filters m) (high_path_conv m) pooled of
            Inl e \<Rightarrow> Inl e
          | Inr conv \<Rightarrow> Inr (map_tensor (high_activation m) conv)))"

definition apply_high_level_conv :: "attention_upsample \<Rightarrow> tensor4 \<Rightarrow> py_error + tensor4" where
  "apply_high_level_conv m t =
     (case high_level_conv m of
        None \<Rightarrow> Inr t
      | Some p \<Rightarrow> pointwise_conv (high_filters m) (output_filters m) p t)"

text \<open>\<open>high_level + low_level * weights\<close>.\<close>

definition attention_sum :: "tensor4 \<Rightarrow> tensor4 \<Rightarrow> tensor4 \<Rightarrow> py_error + tensor4" where
  "attention_sum high low weights =
     (case broadcast2 (*) low weights of
        Inl e \<Rightarrow> Inl e
      | Inr weighted \<Rightarrow> broadcast2 (+) high weighted)"

definition gau_forward :: "attention_upsample \<Rightarrow> tensor4 \<Rightarrow> tensor4 \<Rightarrow> py_error + tensor4" where
  "gau_forward m low_level0 high_level0 =
     (case low_level_path m low_level0 of
        Inl e \<Rightarrow> Inl e
      | Inr low_level \<Rightarrow>
     (case high_level_path m high_level0 of
        Inl e \<Rightarrow> Inl e
      | Inr weights \<Rightarrow>
     (case apply_high_level_conv m high_level0 of
        Inl e \<Rightarrow> Inl e
      | Inr high_level \<Rightarrow>
         if (dim_h high_level, dim_w high_level) \<noteq> (dim_h low_level, dim_w low_level) then
           (case interpolate high_level (dim_h low_level, dim_w low_level) of
              Inl e \<Rightarrow> Inl e
            | Inr upsampled \<Rightarrow>
               if \<not> gau_pool m then
                 (case interpolate weights (dim_h low_level, dim_w low_level) of
                    Inl e \<Rightarrow> Inl e
                  | Inr upsampled_weights \<Rightarrow> attention_sum upsampled low_level upsampled_weights)
               else attention_sum upsampled low_level weights)
         else attention_sum high_level low_level weights)))"

text \<open>
  The result as the claim words it: \<open>high' + low' * w\<close> with \<open>w\<close> the output of the high-level
  path and \<open>high'\<close> the (convolved) high-level input, upsampled when its spatial size differs
  from that of the low-level features.
\<close>

definition gau_claimed :: "attention_upsample \<Rightarrow> tensor4 \<Rightarrow> tensor4 \<Rightarrow> py_error + tensor4" where
  "gau_claimed m low_level0 high_level0 =
     (case low_level_path m low_level0 of
        Inl e \<Rightarrow> Inl e
      | Inr low_level \<Rightarrow>
     (case high_level_path m high_level0 of
        Inl e \<Rightarrow> Inl e
      | Inr weights \<Rightarrow>
     (case apply_high_level_conv m high_level0 of
        Inl e \<Rightarrow> Inl e
      | Inr high_level \<Rightarrow>
         if (dim_h high_level, dim_w high_level) \<noteq> (dim_h low_level, dim_w low_level) then
           (case interpolate high_level (dim_h low_level, dim_w low_level) of
              Inl e \<Rightarrow> Inl e
            | Inr upsampled \<Rightarrow> attention_sum upsampled low_level weights)
         else attention_sum high_level low_level weights)))"

text \<open>
  A small module without pooling and with one filter everywhere: the low-level path passes
  its input on, the convolution has weight 1 and bias 0, the activation is the identity.
  Its inputs: low-level features of width 4 that are 1 everywhere, high-level features of
  width 2 that hold their column index.
\<close>

definition example_gau :: attention_upsample where
  "example_gau =
     AttentionUpsample2d Inr \<lparr>weight = \<lambda>out c. 1, bias = \<lambda>out. 0\<rparr>
       \<lparr>weight = \<lambda>out c. 1, bias = \<lambda>out. 0\<rparr> 1 1 False (\<lambda>v. v)"

definition example_low :: tensor4 where
  "example_low = \<lparr>dim_b = 1, dim_c = 1, dim_h = 1, dim_w = 4, val = \<lambda>b c y x. 1\<rparr>"

definition example_high :: tensor4 where
  "example_high = \<lparr>dim_b = 1, dim_c = 1, dim_h = 1, dim_w = 2, val = \<lambda>b c y x. real x\<rparr>"

section \<open>combustion/models/efficientdet_fcos.py\<close>

subsection \<open>EfficientDetFCOS.create_boxes and FCOSMixin.create_boxes\<close>

text \<open>
  The two methods have the same body (the trailing \<open>...\<close> of the second is an expression
  statement without effect).  The values the local variable \<open>cls\<close> and the result can take:
\<close>

datatype pyval = PyNone | PyTensor tensor4 | PyTuple "tensor4 list"

text \<open>\<open>cent.expand_as(other)\<close>: the argument must be a tensor.\<close>

definition method_expand_as :: "tensor4 \<Rightarrow> pyval \<Rightarrow> py_error + tensor4" where
  "method_expand_as cent other =
     (case other of PyTensor t \<Rightarrow> expand_as cent t | _ \<Rightarrow> Inl TypeError)"

text \<open>
  The loop runs over \<open>zip(cls, reg, centerness)\<close>.  Without a level the body never runs and
  the function falls off its end, returning \<open>None\<close>.  Otherwise the first statement of the
  first iteration, \<open>cls = cls * cent.expand_as(cls)\<close>, evaluates \<open>cent.expand_as(cls)\<close>
  with \<open>cls\<close> still bound to the tuple of all levels.  The statements after it read
  \<open>center\<close> and \<open>x_s\<close>, which no scope binds; they stand behind the first one.
\<close>

definition create_boxes ::
  "tensor4 list \<Rightarrow> tensor4 list \<Rightarrow> tensor4 list \<Rightarrow> int list \<Rightarrow> real \<Rightarrow> real \<Rightarrow> py_error + pyval" where
  "create_boxes cls reg centerness strides threshold pad_value =
     (case zip cls (zip reg centerness) of
        [] \<Rightarrow> Inr PyNone
      | (c, r, cent) # rest \<Rightarrow>
         (case method_expand_as cent (PyTuple cls) of
            Inl e \<Rightarrow> Inl e
          | Inr expanded \<Rightarrow> Inl (NameError ''center'')))"

section \<open>Properties of combustion/util/plot.py\<close>













section \<open>Properties of FCOSDecoder.postprocess\<close>




lemma level_boxes_rows:
  assumes "level_boxes s xl yl thr fl lc lr lcen = Inr rows"
  shows "\<exists>cen. expand_as (activate fl lcen) (activate fl lc) = Inr cen \<and>
           rows = map (\<lambda>loc. (fst loc, box_row s xl yl (activate fl lc) lr cen loc))
                    (positive_locations (activate fl lc) thr)"
  using assms
  by (auto simp: level_boxes_def Let_def split: sum.splits if_splits)


lemma levels_loop_rows:
  assumes "levels_loop xl yl thr fl lvls = Inr rows" "r \<in> set rows"
  shows "\<exists>s lc lr lcen lrows. (s, lc, lr, lcen) \<in> set lvls \<and>
           level_boxes s xl yl thr fl lc lr lcen = Inr lrows \<and> r \<in> set lrows"
  using assms
proof (induction lvls arbitrary: rows)
  case Nil
  then show ?case by simp
next
  case (Cons l lvls)
  obtain s lc lr lcen where l: "l = (s, lc, lr, lcen)" by (cases l) auto
  from Cons.prems(1) obtain lrows others where
    a: "level_boxes s xl yl thr fl lc lr lcen = Inr lrows" and
    b: "levels_loop xl yl thr fl lvls = Inr others" and
    c: "rows = lrows @ others"
    by (auto simp: l split: sum.splits)
  from Cons.prems(2) c consider "r \<in> set lrows" | "r \<in> set others" by auto
  then show ?case
  proof cases
    case 1
    with a show ?thesis unfolding l by (intro exI[of _ s] exI[of _ lc] exI[of _ lr] exI[of _ lcen] exI[of _ lrows]) simp
  next
    case 2
    from Cons.IH[OF b 2] show ?thesis by (metis list.set_intros(2))
  qed
qed

lemma select_rows_subset:
  "select_rows keep rows = Inr kept \<Longrightarrow> set kept \<subseteq> set rows"
  by (auto simp: select_rows_def list_all_iff split: if_splits)

lemma apply_nms_subset:
  "apply_nms nms n t rows = Inr kept \<Longrightarrow> set kept \<subseteq> set rows"
  unfolding apply_nms_def Let_def by (rule select_rows_subset)

lemma batch_box_target_rows:
  assumes "img \<in> set (batch_box_target target pad)" "row \<in> set img"
  shows "row = replicate 6 pad \<or> (\<exists>elem \<in> set target. row \<in> set elem)"
  using assms by (auto simp: batch_box_target_def Let_def)

lemma split_by_image_rows:
  assumes "elem \<in> set (split_by_image n rows)" "row \<in> set elem"
  shows "\<exists>b. (b, row) \<in> set rows"
  using assms by (fastforce simp: split_by_image_def)

lemma postprocess_rows:
  assumes "postprocess nms cls reg centerness strides thr pad fl nt raw = Inr out"
    and "img \<in> set out" and "row \<in> set img"
  shows "row = replicate 6 pad \<or>
         (\<exists>s lc lr lcen cen loc.
            (s, lc, lr, lcen) \<in> set (zip4 strides cls reg centerness) \<and>
            expand_as (activate fl lcen) (activate fl lc) = Inr cen \<and>
            loc \<in> set (positive_locations (activate fl lc) \<bar>thr\<bar>) \<and>
            row = final_columns raw
                    (box_row s (int (dim_w (cls ! 0)) * strides ! 0)
                       (int (dim_h (cls ! 0)) * strides ! 0) (activate fl lc) lr cen loc))"
proof -
  let ?xl = "int (dim_w (cls ! 0)) * strides ! 0"
  let ?yl = "int (dim_h (cls ! 0)) * strides ! 0"
  from assms(1) obtain rows kept where
    loop: "levels_loop ?xl ?yl \<bar>thr\<bar> fl (zip4 strides cls reg centerness) = Inr rows" and
    kept: "set kept \<subseteq> set rows" and
    out: "out = batch_box_target
                 (split_by_image (dim_b (cls ! 0))
                    (map (\<lambda>(batch, row). (batch, final_columns raw row)) kept)) pad"
    by (auto simp: postprocess_def Let_def split: if_splits sum.splits option.splits
        dest: apply_nms_subset)
  show ?thesis
  proof (cases "row = replicate 6 pad")
    case True
    then show ?thesis by simp
  next
    case False
    with batch_box_target_rows[OF assms(2)[unfolded out] assms(3)]
    obtain elem where "elem \<in> set (split_by_image (dim_b (cls ! 0))
                    (map (\<lambda>(batch, row). (batch, final_columns raw row)) kept))" "row \<in> set elem"
      by auto
    from split_by_image_rows[OF this] obtain b r where
      r: "(b, r) \<in> set kept" "row = final_columns raw r"
      by auto
    with kept have "(b, r) \<in> set rows" by auto
    from levels_loop_rows[OF loop this] obtain s lc lr lcen lrows where
      lv: "(s, lc, lr, lcen) \<in> set (zip4 strides cls reg centerness)"
      "level_boxes s ?xl ?yl \<bar>thr\<bar> fl lc lr lcen = Inr lrows" "(b, r) \<in> set lrows"
      by blast
    from level_boxes_rows[OF lv(2)] obtain cen where
      cen: "expand_as (activate fl lcen) (activate fl lc) = Inr cen"
      "lrows = map (\<lambda>loc. (fst loc, box_row s ?xl ?yl (activate fl lc) lr cen loc))
                    (positive_locations (activate fl lc) \<bar>thr\<bar>)"
      by blast
    with lv(3) obtain loc where "loc \<in> set (positive_locations (activate fl lc) \<bar>thr\<bar>)"
      "r = box_row s ?xl ?yl (activate fl lc) lr cen loc"
      by auto
    with lv(1) cen(1) r(2) show ?thesis by blast
  qed
qed


lemma activate_dims [simp]:
  "dim_b (activate fl t) = dim_b t" "dim_c (activate fl t) = dim_c t"
  "dim_h (activate fl t) = dim_h t" "dim_w (activate fl t) = dim_w t"
  by (simp_all add: activate_def map_tensor_def)

lemma box_row_columns:
  "box_row s xl yl lc lr cen (b, c, y, x) ! 4 = val lc b c y x"
  "box_row s xl yl lc lr cen (b, c, y, x) ! 6 = real c"
  "take 4 (box_row s xl yl lc lr cen (b, c, y, x)) = box_coords s xl yl lr (b, c, y, x)"
  "length (box_row s xl yl lc lr cen (b, c, y, x)) = 7"
  by (simp_all add: box_row_def box_coords_def Let_def)

lemma final_columns_coords:
  assumes "length r = 7"
  shows "take 4 (final_columns raw r) = take 4 r"
    and "final_columns raw r ! 5 = r ! 6"
    and "raw \<Longrightarrow> final_columns raw r ! 4 = r ! 4"
proof -
  obtain a b c d e f g where "r = [a, b, c, d, e, f, g]"
    using assms by (auto simp: length_Suc_conv eval_nat_numeral)
  then show "take 4 (final_columns raw r) = take 4 r" "final_columns raw r ! 5 = r ! 6"
    "raw \<Longrightarrow> final_columns raw r ! 4 = r ! 4"
    by (simp_all add: final_columns_def)
qed

lemma zip4_strides:
  "(s, lc, lr, lcen) \<in> set (zip4 strides cls reg centerness) \<Longrightarrow> s \<in> set strides"
  unfolding zip4_def by (rule set_zip_leftD)

lemma box_coords_formula:
  assumes "0 \<le> s"
  shows "box_coords s xl yl lr (b, c, y, x) =
     [max 0 (real_of_int (s * int x + s div 2) - val lr b 0 y x),
      max 0 (real_of_int (s * int y + s div 2) - val lr b 1 y x),
      min (real_of_int xl) (max 0 (real_of_int (s * int x + s div 2) + val lr b 2 y x)),
      min (real_of_int yl) (max 0 (real_of_int (s * int y + s div 2) + val lr b 3 y x))]"
  using assms by (simp add: box_coords_def int_half_def Let_def mult.commute)

text \<open>
  Claim C1.  With non-negative strides, every row of the result of \<open>postprocess\<close> that is
  not padding is the box of a positive location \<open>(b, c, y, x)\<close> of some level with stride
  \<open>s\<close>: its coordinates are
  \<open>(s*x + s div 2 - l, s*y + s div 2 - t, s*x + s div 2 + r, s*y + s div 2 + b)\<close> for the
  offsets \<open>(l, t, r, b)\<close> of the level's regression map at that location, clamped from
  below at 0 and, for the last two, from above at \<open>W0 * strides[0]\<close> and
  \<open>H0 * strides[0]\<close>; all four are non-negative.
\<close>

theorem postprocess_box_coordinates:
  assumes "postprocess nms cls reg centerness strides thr pad fl nt raw = Inr out"
    and "img \<in> set out" and "row \<in> set img"
    and "\<forall>s \<in> set strides. 0 \<le> s"
  shows "row = replicate 6 pad \<or>
         (\<exists>s lc lr lcen b c y x.
            (s, lc, lr, lcen) \<in> set (zip4 strides cls reg centerness) \<and>
            (b, c, y, x) \<in> set (positive_locations (activate fl lc) \<bar>thr\<bar>) \<and>
            take 4 row =
              [max 0 (real_of_int (s * int x + s div 2) - val lr b 0 y x),
               max 0 (real_of_int (s * int y + s div 2) - val lr b 1 y x),
               min (real_of_int (int (dim_w (cls ! 0)) * strides ! 0))
                 (max 0 (real_of_int (s * int x + s div 2) + val lr b 2 y x)),
               min (real_of_int (int (dim_h (cls ! 0)) * strides ! 0))
                 (max 0 (real_of_int (s * int y + s div 2) + val lr b 3 y x))] \<and>
            0 \<le> row ! 0 \<and> 0 \<le> row ! 1 \<and> 0 \<le> row ! 2 \<and> 0 \<le> row ! 3 \<and>
            row ! 2 \<le> real_of_int (int (dim_w (cls ! 0)) * strides ! 0) \<and>
            row ! 3 \<le> real_of_int (int (dim_h (cls ! 0)) * strides ! 0))"
proof (cases "row = replicate 6 pad")
  case True
  then show ?thesis by simp
next
  case False
  let ?xl = "int (dim_w (cls ! 0)) * strides ! 0"
  let ?yl = "int (dim_h (cls ! 0)) * strides ! 0"
  from postprocess_rows[OF assms(1-3)] False obtain s lc lr lcen cen loc where
    lv: "(s, lc, lr, lcen) \<in> set (zip4 strides cls reg centerness)" and
    loc: "loc \<in> set (positive_locations (activate fl lc) \<bar>thr\<bar>)" and
    row: "row = final_columns raw (box_row s ?xl ?yl (activate fl lc) lr cen loc)"
    by blast
  obtain b c y x where l: "loc = (b, c, y, x)" by (cases loc) auto
  have s: "0 \<le> s" using zip4_strides[OF lv] assms(4) by blast
  have ne: "strides \<noteq> []" using zip4_strides[OF lv] by auto
  then have "strides ! 0 \<in> set strides" by (cases strides) auto
  then have s0: "0 \<le> strides ! 0" using assms(4) by blast
  then have lims: "0 \<le> real_of_int ?xl" "0 \<le> real_of_int ?yl" by simp_all
  have t4: "take 4 row = box_coords s ?xl ?yl lr (b, c, y, x)"
    unfolding row l by (simp add: final_columns_coords box_row_columns)
  note f = box_coords_formula[OF s, of ?xl ?yl lr b c y x]
  have idx: "row ! 0 = take 4 row ! 0" "row ! 1 = take 4 row ! 1"
    "row ! 2 = take 4 row ! 2" "row ! 3 = take 4 row ! 3"
    by simp_all
  have bounds: "0 \<le> row ! 0 \<and> 0 \<le> row ! 1 \<and> 0 \<le> row ! 2 \<and> 0 \<le> row ! 3 \<and>
            row ! 2 \<le> real_of_int ?xl \<and> row ! 3 \<le> real_of_int ?yl"
    unfolding idx t4 f using lims by simp
  show ?thesis
    using lv loc[unfolded l] t4[unfolded f] bounds by blast
qed




subsection \<open>The small input, evaluated\<close>

lemmas ex_defs = example_cls_def example_reg_def example_centerness_def keep_all_def

lemma example_cls_dims:
  "dim_b example_cls = 1" "dim_c example_cls = 1" "dim_h example_cls = 1" "dim_w example_cls = 1"
  by (simp_all add: example_cls_def)

lemma ex_locs: "positive_locations example_cls (1/20) = [(0,0,0,0)]"
  by (simp add: positive_locations_def example_cls_def)

lemma ex_level: "level_boxes 8 8 8 (1/20) False example_cls example_reg example_centerness
   = Inr [(0, [4, 3, 6, 7, 1, 1, 0])]"
  by (simp add: level_boxes_def activate_def expand_as_def expandable_def ex_locs Let_def
     reg_in_range_def box_row_def box_coords_def scaled_score_at_def int_half_def bidx_def)
  (simp add: ex_defs)

lemma ex_post: "postprocess keep_all [example_cls] [example_reg] [example_centerness] [8] (1/20) (-1) False None False
  = Inr [[[4, 3, 6, 7, 1, 0]]]"
  apply (simp add: postprocess_def Let_def zip4_def)
  apply (simp add: example_cls_dims ex_level)
  apply (simp add: example_cls_dims batch_box_target_def split_by_image_def final_columns_def)
  done


theorem postprocess_box_coordinates_witness:
  "postprocess keep_all [example_cls] [example_reg] [example_centerness] [8] (1 / 20) (- 1)
       False None False = Inr [[[4, 3, 6, 7, 1, 0]]] \<and>
   (0 :: int) \<le> 8 \<and>
   ([4, 3, 6, 7, 1, 0 :: real] = replicate 6 (- 1) \<or>
         (\<exists>s lc lr lcen b c y x.
            (s, lc, lr, lcen) \<in> set (zip4 [8] [example_cls] [example_reg] [example_centerness]) \<and>
            (b, c, y, x) \<in> set (positive_locations (activate False lc) \<bar>1 / 20\<bar>) \<and>
            take 4 [4, 3, 6, 7, 1, 0 :: real] =
              [max 0 (real_of_int (s * int x + s div 2) - val lr b 0 y x),
               max 0 (real_of_int (s * int y + s div 2) - val lr b 1 y x),
               min (real_of_int (int (dim_w ([example_cls] ! 0)) * [8] ! 0))
                 (max 0 (real_of_int (s * int x + s div 2) + val lr b 2 y x)),
               min (real_of_int (int (dim_h ([example_cls] ! 0)) * [8] ! 0))
                 (max 0 (real_of_int (s * int y + s div 2) + val lr b 3 y x))] \<and>
            0 \<le> [4, 3, 6, 7, 1, 0 :: real] ! 0 \<and> 0 \<le> [4, 3, 6, 7, 1, 0 :: real] ! 1 \<and>
            0 \<le> [4, 3, 6, 7, 1, 0 :: real] ! 2 \<and> 0 \<le> [4, 3, 6, 7, 1, 0 :: real] ! 3 \<and>
            [4, 3, 6, 7, 1, 0 :: real] ! 2 \<le> real_of_int (int (dim_w ([example_cls] ! 0)) * [8] ! 0) \<and>
            [4, 3, 6, 7, 1, 0 :: real] ! 3 \<le> real_of_int (int (dim_h ([example_cls] ! 0)) * [8] ! 0)))"
proof (intro conjI)
  show e: "postprocess keep_all [example_cls] [example_reg] [example_centerness] [8] (1 / 20) (- 1)
       False None False = Inr [[[4, 3, 6, 7, 1, 0]]]"
    by (rule ex_post)
  show "(0 :: int) \<le> 8" by simp
  have p: "\<forall>s \<in> set [8 :: int]. 0 \<le> s" by simp
  show "([4, 3, 6, 7, 1, 0 :: real] = replicate 6 (- 1) \<or>
         (\<exists>s lc lr lcen b c y x.
            (s, lc, lr, lcen) \<in> set (zip4 [8] [example_cls] [example_reg] [example_centerness]) \<and>
            (b, c, y, x) \<in> set (positive_locations (activate False lc) \<bar>1 / 20\<bar>) \<and>
            take 4 [4, 3, 6, 7, 1, 0 :: real] =
              [max 0 (real_of_int (s * int x + s div 2) - val lr b 0 y x),
               max 0 (real_of_int (s * int y + s div 2) - val lr b 1 y x),
               min (real_of_int (int (dim_w ([example_cls] ! 0)) * [8] ! 0))
                 (max 0 (real_of_int (s * int x + s div 2) + val lr b 2 y x)),
               min (real_of_int (int (dim_h ([example_cls] ! 0)) * [8] ! 0))
                 (max 0 (real_of_int (s * int y + s div 2) + val lr b 3 y x))] \<and>
            0 \<le> [4, 3, 6, 7, 1, 0 :: real] ! 0 \<and> 0 \<le> [4, 3, 6, 7, 1, 0 :: real] ! 1 \<and>
            0 \<le> [4, 3, 6, 7, 1, 0 :: real] ! 2 \<and> 0 \<le> [4, 3, 6, 7, 1, 0 :: real] ! 3 \<and>
            [4, 3, 6, 7, 1, 0 :: real] ! 2 \<le> real_of_int (int (dim_w ([example_cls] ! 0)) * [8] ! 0) \<and>
            [4, 3, 6, 7, 1, 0 :: real] ! 3 \<le> real_of_int (int (dim_h ([example_cls] ! 0)) * [8] ! 0)))"
  proof -
    have i: "[[4, 3, 6, 7, 1, 0 :: real]] \<in> set [[[4, 3, 6, 7, 1, 0]]]" by simp
    have r: "[4, 3, 6, 7, 1, 0 :: real] \<in> set [[4, 3, 6, 7, 1, 0]]" by simp
    show ?thesis by (rule postprocess_box_coordinates[OF e i r p])
  qed
qed


subsection \<open>No detection, and non-maximum suppression\<close>

lemma level_boxes_no_positive:
  assumes "positive_locations (activate fl lc) t = []"
  shows "level_boxes s xl yl t fl lc lr lcen = Inr [] \<or> (\<exists>e. level_boxes s xl yl t fl lc lr lcen = Inl e)"
  using assms by (simp add: level_boxes_def Let_def split: sum.splits)

lemma levels_loop_no_positive:
  assumes "\<forall>(s, lc, lr, lcen) \<in> set lvls. positive_locations (activate fl lc) t = []"
  shows "levels_loop xl yl t fl lvls = Inr [] \<or> (\<exists>e. levels_loop xl yl t fl lvls = Inl e)"
  using assms
proof (induction lvls)
  case Nil
  then show ?case by simp
next
  case (Cons l lvls)
  obtain s lc lr lcen where l: "l = (s, lc, lr, lcen)" by (cases l) auto
  from Cons.prems l have p: "positive_locations (activate fl lc) t = []" by simp
  from Cons have ih: "levels_loop xl yl t fl lvls = Inr [] \<or> (\<exists>e. levels_loop xl yl t fl lvls = Inl e)"
    by simp
  from level_boxes_no_positive[OF p, of s xl yl lr lcen] ih show ?case
    unfolding l by (auto split: sum.splits)
qed

lemma zip4_cls:
  "(s, lc, lr, lcen) \<in> set (zip4 strides cls reg centerness) \<Longrightarrow> lc \<in> set cls"
  unfolding zip4_def by (meson set_zip_leftD set_zip_rightD)

text \<open>
  Claim C3 is violated by the code.  When no location of any level reaches the threshold,
  every level is skipped, \<open>boxes\<close> stays empty and the \<open>else\<close> branch reads \<open>coords\<close>, which
  was never assigned: \<open>postprocess\<close> raises instead of returning an empty \<open>(B, 0, 6)\<close> tensor.
\<close>

theorem postprocess_no_detection_raises:
  assumes "\<forall>lc \<in> set cls. positive_locations (activate fl lc) \<bar>thr\<bar> = []"
  shows "\<exists>e. postprocess nms cls reg centerness strides thr pad fl nt raw = Inl e"
proof -
  let ?xl = "int (dim_w (cls ! 0)) * strides ! 0"
  let ?yl = "int (dim_h (cls ! 0)) * strides ! 0"
  have "\<forall>(s, lc, lr, lcen) \<in> set (zip4 strides cls reg centerness).
          positive_locations (activate fl lc) \<bar>thr\<bar> = []"
    using assms zip4_cls by fast
  from levels_loop_no_positive[OF this, of ?xl ?yl]
  show ?thesis
    unfolding postprocess_def Let_def by (auto)
qed

lemma example_zero_cls_dims:
  "dim_b example_zero_cls = 1" "dim_c example_zero_cls = 1" "dim_h example_zero_cls = 1" "dim_w example_zero_cls = 1"
  by (simp_all add: example_zero_cls_def)

lemma ex_zero_level: "level_boxes 8 8 8 (1/20) False example_zero_cls example_reg example_centerness = Inr []"
  by (simp add: level_boxes_def activate_def expand_as_def expandable_def Let_def
      positive_locations_def example_zero_cls_dims example_centerness_def)
   (simp add: example_zero_cls_def)

lemma ex_zero_post:
  "postprocess keep_all [example_zero_cls] [example_reg] [example_centerness] [8] (1 / 20) (- 1)
       False (Some (1 / 2)) False = Inl (UnboundLocalError ''coords'')"
  by (simp add: postprocess_def Let_def zip4_def example_zero_cls_dims ex_zero_level)











theorem postprocess_no_detection_raises_witness:
  "postprocess keep_all [example_zero_cls] [example_reg] [example_centerness] [8] (1 / 20) (- 1)
       False (Some (1 / 2)) False = Inl (UnboundLocalError ''coords'') \<and>
   (\<exists>e. postprocess keep_all [example_zero_cls] [example_reg] [example_centerness] [8] (1 / 20)
          (- 1) False (Some (1 / 2)) False = Inl e)"
proof (intro conjI)
  have "\<forall>lc \<in> set [example_zero_cls]. positive_locations (activate False lc) \<bar>1 / 20\<bar> = []"
    by (simp add: positive_locations_def activate_def example_zero_cls_dims)
      (simp add: example_zero_cls_def)
  then show "\<exists>e. postprocess keep_all [example_zero_cls] [example_reg] [example_centerness] [8]
          (1 / 20) (- 1) False (Some (1 / 2)) False = Inl e"
    by (rule postprocess_no_detection_raises)
  show "postprocess keep_all [example_zero_cls] [example_reg] [example_centerness] [8] (1 / 20) (- 1)
       False (Some (1 / 2)) False = Inl (UnboundLocalError ''coords'')"
    by (rule ex_zero_post)
qed







section \<open>Properties of reduce_heatmaps and create_boxes\<close>

text \<open>
  Claim C5 is violated by the code.  In the scope of \<open>fcos.py\<close>, \<open>reduce_heatmaps\<close> raises
  \<open>NameError\<close> for every non-empty tuple of heatmaps: with one level the loop does not run and
  \<open>return top\<close> reads an unbound name; with more levels the first iteration reads \<open>F\<close>,
  which the module never imports.
\<close>

theorem reduce_heatmaps_raises:
  "reduce_heatmaps fcos_module_scope (first # rest) reduction mode =
     Inl (NameError (if rest = [] then ''top'' else ''F''))"
  by (cases rest) (simp_all add: reduce_heatmaps_def fcos_module_scope_def)

text \<open>
  Claim C7 is violated by the code.  \<open>create_boxes\<close> never returns a tensor: with at least one
  level it raises \<open>TypeError\<close> in the first statement of the loop body, and without a level
  it returns \<open>None\<close>.
\<close>

theorem create_boxes_returns_no_tensor:
  "create_boxes cls reg centerness strides threshold pad_value =
     (if cls = [] \<or> reg = [] \<or> centerness = [] then Inr PyNone else Inl TypeError)"
  by (cases cls; cases reg; cases centerness)
    (simp_all add: create_boxes_def method_expand_as_def)

section \<open>Properties of BaseFCOSDecoder.forward\<close>

lemma split_layer_centerness:
  "dim_b (fst (split_layer a layer)) = dim_b layer"
  "dim_c (fst (split_layer a layer)) = min 1 (dim_c layer)"
  "dim_h (fst (split_layer a layer)) = dim_h layer"
  "dim_w (fst (split_layer a layer)) = dim_w layer"
  "val (fst (split_layer a layer)) b 0 y x = val layer b 0 y x"
  by (simp_all add: split_layer_def Let_def slice_channels_def write_channels_def)

lemma split_layer_reg:
  "dim_b (snd (split_layer a layer)) = dim_b layer"
  "dim_c (snd (split_layer a layer)) = dim_c layer - 1"
  "dim_h (snd (split_layer a layer)) = dim_h layer"
  "dim_w (snd (split_layer a layer)) = dim_w layer"
  "val (snd (split_layer a layer)) b c y x = act a (val layer b (c + 1) y x)"
  by (simp_all add: split_layer_def Let_def slice_channels_def write_channels_def map_tensor_def)

text \<open>
  Claim C6.  For a \<open>SharedDecoder2d\<close> that yields \<open>out_channels\<close> channels at every level,
  \<open>forward\<close> returns the output of the classification head, built with \<open>num_classes\<close>
  output channels and \<open>nn.Identity\<close> as final activation; a centerness map with one channel
  that equals channel 0 of the regression head's output, also when \<open>reg_activation\<close> works
  in place; and a regression map with \<open>num_regressions\<close> channels that is \<open>reg_activation\<close> of
  channels \<open>1\<close> to \<open>num_regressions\<close> of that same output.  \<open>FCOSDecoder\<close> is the decoder
  with four regression channels and an in-place ReLU.
\<close>

theorem forward_outputs:
  assumes contract: "\<forall>args fpn outs. SharedDecoder2d args fpn = Inr outs \<longrightarrow>
                        (\<forall>t \<in> set outs. dim_c t = sd_out_channels args)"
    and fwd: "forward (BaseFCOSDecoder SharedDecoder2d in_channels num_classes num_regressions
                num_convs strides activation reg_act bn_momentum bn_epsilon) fpn =
              Inr (cls, reg, centerness)"
  shows "\<exists>layers.
           SharedDecoder2d
             \<lparr>sd_in_channels = in_channels, sd_out_channels = num_classes,
              sd_num_convs = num_convs, sd_strides = strides, sd_activation = activation,
              sd_final_activation = Identity, sd_bn_momentum = bn_momentum,
              sd_bn_epsilon = bn_epsilon\<rparr> fpn = Inr cls \<and>
           SharedDecoder2d
             \<lparr>sd_in_channels = in_channels, sd_out_channels = num_regressions + 1,
              sd_num_convs = num_convs, sd_strides = strides, sd_activation = activation,
              sd_final_activation = Identity, sd_bn_momentum = bn_momentum,
              sd_bn_epsilon = bn_epsilon\<rparr> fpn = Inr layers \<and>
           (\<forall>t \<in> set cls. dim_c t = num_classes) \<and>
           length reg = length layers \<and> length centerness = length layers \<and>
           (\<forall>i < length layers.
              dim_c (centerness ! i) = 1 \<and>
              (\<forall>b y x. val (centerness ! i) b 0 y x = val (layers ! i) b 0 y x) \<and>
              dim_c (reg ! i) = num_regressions \<and>
              (\<forall>b c y x. val (reg ! i) b c y x = act reg_act (val (layers ! i) b (c + 1) y x)) \<and>
              dim_b (centerness ! i) = dim_b (layers ! i) \<and> dim_b (reg ! i) = dim_b (layers ! i) \<and>
              dim_h (centerness ! i) = dim_h (layers ! i) \<and> dim_h (reg ! i) = dim_h (layers ! i) \<and>
              dim_w (centerness ! i) = dim_w (layers ! i) \<and> dim_w (reg ! i) = dim_w (layers ! i)) \<and>
           FCOSDecoder SharedDecoder2d in_channels num_classes num_convs strides activation
               bn_momentum bn_epsilon =
             BaseFCOSDecoder SharedDecoder2d in_channels num_classes 4 num_convs strides
               activation (ReLU True) bn_momentum bn_epsilon"
proof -
  let ?ca = "\<lparr>sd_in_channels = in_channels, sd_out_channels = num_classes,
              sd_num_convs = num_convs, sd_strides = strides, sd_activation = activation,
              sd_final_activation = Identity, sd_bn_momentum = bn_momentum,
              sd_bn_epsilon = bn_epsilon\<rparr>"
  let ?ra = "\<lparr>sd_in_channels = in_channels, sd_out_channels = num_regressions + 1,
              sd_num_convs = num_convs, sd_strides = strides, sd_activation = activation,
              sd_final_activation = Identity, sd_bn_momentum = bn_momentum,
              sd_bn_epsilon = bn_epsilon\<rparr>"
  from fwd obtain layers where
    c: "SharedDecoder2d ?ca fpn = Inr cls" and
    l: "SharedDecoder2d ?ra fpn = Inr layers" and
    r: "reg = map (\<lambda>layer. snd (split_layer reg_act layer)) layers" and
    ce: "centerness = map (\<lambda>layer. fst (split_layer reg_act layer)) layers"
    by (auto simp: forward_def BaseFCOSDecoder_def split: sum.splits)
  have cc: "\<forall>t \<in> set cls. dim_c t = num_classes"
    using contract[rule_format, OF c] by simp
  have lc: "dim_c (layers ! i) = num_regressions + 1" if "i < length layers" for i
    using contract[rule_format, OF l, of "layers ! i"] that by simp
  have per: "dim_c (centerness ! i) = 1 \<and>
              (\<forall>b y x. val (centerness ! i) b 0 y x = val (layers ! i) b 0 y x) \<and>
              dim_c (reg ! i) = num_regressions \<and>
              (\<forall>b c y x. val (reg ! i) b c y x = act reg_act (val (layers ! i) b (c + 1) y x)) \<and>
              dim_b (centerness ! i) = dim_b (layers ! i) \<and> dim_b (reg ! i) = dim_b (layers ! i) \<and>
              dim_h (centerness ! i) = dim_h (layers ! i) \<and> dim_h (reg ! i) = dim_h (layers ! i) \<and>
              dim_w (centerness ! i) = dim_w (layers ! i) \<and> dim_w (reg ! i) = dim_w (layers ! i)"
    if "i < length layers" for i
    using that lc[OF that] unfolding r ce
    by (simp add: split_layer_centerness split_layer_reg)
  show ?thesis
    apply (rule exI[of _ layers])
    apply (intro conjI)
          apply (rule c)
         apply (rule l)
        apply (rule cc)
       apply (simp add: r)
      apply (simp add: ce)
    using per apply blast
    apply (rule FCOSDecoder_def)
    done
qed

lemma example_head_contract:
  "\<forall>args fpn outs. example_head args fpn = Inr outs \<longrightarrow>
      (\<forall>t \<in> set outs. dim_c t = sd_out_channels args)"
  by (auto simp: example_head_def)

theorem forward_outputs_witness:
  "\<exists>cls reg centerness.
     forward (FCOSDecoder example_head 8 3 2 None (ReLU True) (1 / 10) (1 / 100000))
       [example_cls] = Inr (cls, reg, centerness) \<and>
     dim_c (cls ! 0) = 3 \<and> dim_c (reg ! 0) = 4 \<and> dim_c (centerness ! 0) = 1 \<and>
     val (centerness ! 0) 0 0 0 0 = - 1 \<and> val (reg ! 0) 0 2 0 0 = 2 \<and>
     val (reg ! 0) 0 0 0 0 = 0"
proof -
  let ?dec = "BaseFCOSDecoder example_head 8 3 4 2 None (ReLU True) (ReLU True) (1 / 10)
                (1 / 100000)"
  obtain cls reg centerness where
    fwd: "forward ?dec [example_cls] = Inr (cls, reg, centerness)"
    by (simp add: forward_def BaseFCOSDecoder_def example_head_def)
  from forward_outputs[OF example_head_contract fwd] obtain layers where
    h: "example_head
             \<lparr>sd_in_channels = 8, sd_out_channels = 4 + 1,
              sd_num_convs = 2, sd_strides = None, sd_activation = ReLU True,
              sd_final_activation = Identity, sd_bn_momentum = 1 / 10,
              sd_bn_epsilon = 1 / 100000\<rparr> [example_cls] = Inr layers"
      "\<forall>t \<in> set cls. dim_c t = 3"
      "length reg = length layers" "length centerness = length layers"
      "\<forall>i < length layers.
              dim_c (centerness ! i) = 1 \<and>
              (\<forall>b y x. val (centerness ! i) b 0 y x = val (layers ! i) b 0 y x) \<and>
              dim_c (reg ! i) = 4 \<and>
              (\<forall>b c y x. val (reg ! i) b c y x = act (ReLU True) (val (layers ! i) b (c + 1) y x))"
    by blast
  have layers: "length layers = 1" "\<And>b c y x. val (layers ! 0) b c y x = real c - 1"
    using h(1) by (auto simp: example_head_def)
  have cl: "length cls = 1"
    using fwd by (auto simp: forward_def BaseFCOSDecoder_def example_head_def)
  then have "cls ! 0 \<in> set cls" by (cases cls) auto
  with h(2) have c3: "dim_c (cls ! 0) = 3" by blast
  from h(5) layers(1) have p:
    "dim_c (centerness ! 0) = 1" "\<And>b y x. val (centerness ! 0) b 0 y x = val (layers ! 0) b 0 y x"
    "dim_c (reg ! 0) = 4"
    "\<And>b c y x. val (reg ! 0) b c y x = act (ReLU True) (val (layers ! 0) b (c + 1) y x)"
    by simp_all
  have v: "val (centerness ! 0) 0 0 0 0 = - 1" "val (reg ! 0) 0 2 0 0 = 2"
    "val (reg ! 0) 0 0 0 0 = 0"
    unfolding p(2) p(4) layers(2) by (simp_all add: ReLU_def)
  show ?thesis
    unfolding FCOSDecoder_def using fwd c3 p(1,3) v by blast
qed

section \<open>Properties of AttentionUpsample2d.forward\<close>

lemma example_dims:
  "dim_b example_low = 1" "dim_c example_low = 1" "dim_h example_low = 1" "dim_w example_low = 4"
  "dim_b example_high = 1" "dim_c example_high = 1" "dim_h example_high = 1" "dim_w example_high = 2"
  by (simp_all add: example_low_def example_high_def)

lemma example_gau_fields:
  "gau_pool example_gau = False" "low_level_path example_gau = Inr"
  "high_filters example_gau = 1" "output_filters example_gau = 1"
  "high_level_conv example_gau = None" "high_activation example_gau = (\<lambda>v. v)"
  by (simp_all add: example_gau_def AttentionUpsample2d_def)

lemma ex_claimed: "gau_claimed example_gau example_low example_high = Inl RuntimeError"
  by (simp add: gau_claimed_def example_gau_fields high_level_path_def pointwise_conv_def
      apply_high_level_conv_def example_dims conv_out_def map_tensor_def interpolate_def
      bilinear_def attention_sum_def broadcast2_def broadcast_dim_def)

lemma ex_forward: "\<exists>out. gau_forward example_gau example_low example_high = Inr out"
  by (simp add: gau_forward_def example_gau_fields high_level_path_def pointwise_conv_def
      apply_high_level_conv_def example_dims conv_out_def map_tensor_def interpolate_def
      bilinear_def attention_sum_def broadcast2_def broadcast_dim_def)

text \<open>
  Claim C8 as stated fails.  Without pooling, for high-level features of width 2 and
  low-level features of width 4, the claimed \<open>high' + low' * w\<close> with the weights \<open>w\<close> as they
  leave the high-level path cannot even be formed (widths 4 and 2 do not broadcast), while
  \<open>forward\<close> returns a tensor: it upsamples the weights as well.
\<close>

theorem gau_claim_counterexample:
  "gau_forward example_gau example_low example_high \<noteq>
   gau_claimed example_gau example_low example_high"
  using ex_forward ex_claimed by auto

lemma bidx_in_range: "i < d \<Longrightarrow> bidx d i = i"
  by (auto simp: bidx_def)

lemma broadcast_dim_same: "broadcast_dim d d = Some d"
  by (simp add: broadcast_dim_def)

lemma broadcast_dim_one: "d' = d \<or> d' = 1 \<Longrightarrow> broadcast_dim d d' = Some d"
  by (auto simp: broadcast_dim_def)

lemma attention_sum_result:
  assumes "dim_b high = dim_b low" "dim_c high = dim_c low" "dim_h high = dim_h low"
    "dim_w high = dim_w low"
    and "dim_b weights = dim_b low" "dim_c weights = dim_c low"
    and "dim_h weights = dim_h low \<or> dim_h weights = 1"
    and "dim_w weights = dim_w low \<or> dim_w weights = 1"
  shows "\<exists>out. attention_sum high low weights = Inr out \<and>
           dim_b out = dim_b low \<and> dim_c out = dim_c low \<and> dim_h out = dim_h low \<and>
           dim_w out = dim_w low \<and>
           (\<forall>n < dim_b low. \<forall>c < dim_c low. \<forall>y < dim_h low. \<forall>x < dim_w low.
              val out n c y x =
                val high n c y x +
                val low n c y x * val weights n c (bidx (dim_h weights) y) (bidx (dim_w weights) x))"
proof -
  have bd: "broadcast_dim (dim_b low) (dim_b weights) = Some (dim_b low)"
    "broadcast_dim (dim_c low) (dim_c weights) = Some (dim_c low)"
    "broadcast_dim (dim_h low) (dim_h weights) = Some (dim_h low)"
    "broadcast_dim (dim_w low) (dim_w weights) = Some (dim_w low)"
    using assms(5-8) by (simp_all add: broadcast_dim_one)
  let ?weighted = "\<lparr>dim_b = dim_b low, dim_c = dim_c low, dim_h = dim_h low, dim_w = dim_w low,
       val = \<lambda>b c y x.
         val low (bidx (dim_b low) b) (bidx (dim_c low) c) (bidx (dim_h low) y) (bidx (dim_w low) x) *
         val weights (bidx (dim_b weights) b) (bidx (dim_c weights) c) (bidx (dim_h weights) y)
           (bidx (dim_w weights) x)\<rparr>"
  have m: "broadcast2 (*) low weights = Inr ?weighted"
    by (simp add: broadcast2_def bd)
  let ?out = "\<lparr>dim_b = dim_b low, dim_c = dim_c low, dim_h = dim_h low, dim_w = dim_w low,
       val = \<lambda>b c y x.
         val high (bidx (dim_b high) b) (bidx (dim_c high) c) (bidx (dim_h high) y) (bidx (dim_w high) x) +
         val ?weighted (bidx (dim_b low) b) (bidx (dim_c low) c) (bidx (dim_h low) y)
           (bidx (dim_w low) x)\<rparr>"
  have s: "broadcast2 (+) high ?weighted = Inr ?out"
    by (simp add: broadcast2_def assms(1-4) broadcast_dim_same)
  have r: "attention_sum high low weights = Inr ?out"
    unfolding attention_sum_def m using s by simp
  have v: "val ?out n c y x =
             val high n c y x +
             val low n c y x * val weights n c (bidx (dim_h weights) y) (bidx (dim_w weights) x)"
    if "n < dim_b low" "c < dim_c low" "y < dim_h low" "x < dim_w low" for n c y x
    using that by (simp add: bidx_in_range assms(1-6))
  show ?thesis
    apply (rule exI[of _ ?out])
    apply (intro conjI)
         apply (rule r)
        apply simp
       apply simp
      apply simp
     apply simp
    using v apply blast
    done
qed

lemma conv_out_dims [simp]:
  "dim_b (conv_out i out p t) = dim_b t" "dim_c (conv_out i out p t) = out"
  "dim_h (conv_out i out p t) = dim_h t" "dim_w (conv_out i out p t) = dim_w t"
  by (simp_all add: conv_out_def)

lemma pool_out_dims [simp]:
  "dim_b (pool_out t) = dim_b t" "dim_c (pool_out t) = dim_c t"
  "dim_h (pool_out t) = 1" "dim_w (pool_out t) = 1"
  by (simp_all add: pool_out_def)

lemma map_tensor_dims [simp]:
  "dim_b (map_tensor f t) = dim_b t" "dim_c (map_tensor f t) = dim_c t"
  "dim_h (map_tensor f t) = dim_h t" "dim_w (map_tensor f t) = dim_w t"
  by (simp_all add: map_tensor_def)

lemma bilinear_dims [simp]:
  "dim_b (bilinear t (oh, ow)) = dim_b t" "dim_c (bilinear t (oh, ow)) = dim_c t"
  "dim_h (bilinear t (oh, ow)) = oh" "dim_w (bilinear t (oh, ow)) = ow"
  by (simp_all add: bilinear_def)

text \<open>
  Claim C8, amended.  For inputs with non-empty channel and spatial extents and the same
  batch size, and a low-level path that maps \<open>(N, C_l, H_l, W_l)\<close> to \<open>(N, C_o, H_l, W_l)\<close>,
  \<open>forward\<close> returns a tensor of shape \<open>(N, C_o, H_l, W_l)\<close> equal to \<open>high' + low' * w'\<close>:
  \<open>low'\<close> is the output of the low-level path; \<open>high'\<close> is the high-level input,
  pointwise-convolved when \<open>C_h \<noteq> C_o\<close> and bilinearly upsampled to \<open>(H_l, W_l)\<close> when its
  spatial size differs; \<open>w'\<close> is the output of the high-level path (global average pool
  when \<open>pool\<close>, pointwise convolution, high activation), broadcast over the spatial extents
  when pooled, and bilinearly upsampled to \<open>(H_l, W_l)\<close> as well when \<open>pool\<close> is off and the
  spatial sizes differ.
\<close>

theorem gau_forward_amended:
  assumes m: "m = AttentionUpsample2d low_path path_conv level_conv C_h C_o pool high_act"
    and low: "low_path low_level = Inr low"
    and ld: "dim_b low = dim_b low_level" "dim_c low = C_o" "dim_h low = dim_h low_level"
      "dim_w low = dim_w low_level"
    and hd: "dim_b high_level = dim_b low_level" "dim_c high_level = C_h"
    and pos: "0 < C_h" "0 < dim_h high_level" "0 < dim_w high_level" "0 < dim_h low_level"
      "0 < dim_w low_level"
    and hc: "hc = (if C_h \<noteq> C_o then conv_out C_h C_o level_conv high_level else high_level)"
    and w: "w = map_tensor high_act
                  (conv_out C_h C_o path_conv (if pool then pool_out high_level else high_level))"
    and differ: "differ = ((dim_h high_level, dim_w high_level) \<noteq>
                           (dim_h low_level, dim_w low_level))"
    and high': "high' = (if differ then bilinear hc (dim_h low_level, dim_w low_level) else hc)"
    and w': "w' = (if differ \<and> \<not> pool then bilinear w (dim_h low_level, dim_w low_level) else w)"
  shows "\<exists>out. gau_forward m low_level high_level = Inr out \<and>
           dim_b out = dim_b low_level \<and> dim_c out = C_o \<and> dim_h out = dim_h low_level \<and>
           dim_w out = dim_w low_level \<and>
           (\<forall>n < dim_b low_level. \<forall>c < C_o. \<forall>y < dim_h low_level. \<forall>x < dim_w low_level.
              val out n c y x =
                val high' n c y x +
                val low n c y x * val w' n c (bidx (dim_h w') y) (bidx (dim_w w') x))"
proof -
  have f: "gau_pool m = pool" "low_level_path m = low_path" "high_filters m = C_h"
    "output_filters m = C_o" "high_path_conv m = path_conv" "high_activation m = high_act"
    "high_level_conv m = (if C_h \<noteq> C_o then Some level_conv else None)"
    unfolding m by (simp_all add: AttentionUpsample2d_def)
  have hp: "high_level_path m high_level = Inr w"
    using hd pos by (simp add: high_level_path_def f adaptive_avg_pool_def pointwise_conv_def w)
  have hl: "apply_high_level_conv m high_level = Inr hc"
    using hd by (simp add: apply_high_level_conv_def f pointwise_conv_def hc)
  have hcd: "dim_b hc = dim_b low_level" "dim_c hc = C_o" "dim_h hc = dim_h high_level"
    "dim_w hc = dim_w high_level"
    using hd by (auto simp: hc)
  have g: "gau_forward m low_level high_level = attention_sum high' low w'"
    unfolding gau_forward_def f low hp hl
    using pos hcd ld by (auto simp: differ high' w' interpolate_def w)
  have hd': "dim_b high' = dim_b low" "dim_c high' = dim_c low" "dim_h high' = dim_h low"
    "dim_w high' = dim_w low"
    using hcd ld by (auto simp: high' differ)
  have wd: "dim_b w' = dim_b low" "dim_c w' = dim_c low"
    "dim_h w' = dim_h low \<or> dim_h w' = 1" "dim_w w' = dim_w low \<or> dim_w w' = 1"
    using hd ld by (auto simp: w' w differ)
  from attention_sum_result[OF hd' wd] show ?thesis
    unfolding g ld .
qed

lemma ex_source:
  "index0 2 4 (Suc 0) = 0" "index1 2 4 (Suc 0) = 1" "lambda1 2 4 (Suc 0) = 1 / 4"
  "index0 (Suc 0) (Suc 0) 0 = 0" "index1 (Suc 0) (Suc 0) 0 = 0" "lambda1 (Suc 0) (Suc 0) 0 = 0"
  by (simp_all add: source_index_def index0_def index1_def lambda1_def)

theorem gau_forward_amended_witness:
  "\<exists>out. gau_forward example_gau example_low example_high = Inr out \<and>
         dim_b out = 1 \<and> dim_c out = 1 \<and> dim_h out = 1 \<and> dim_w out = 4 \<and>
         val out 0 0 0 1 = 1 / 2"
proof -
  let ?p = "\<lparr>weight = \<lambda>out c. 1, bias = \<lambda>out. 0 :: real\<rparr>"
  let ?w = "map_tensor (\<lambda>v. v) (conv_out 1 1 ?p (if False then pool_out example_high else example_high))"
  let ?hc = "if (1 :: nat) \<noteq> 1 then conv_out 1 1 ?p example_high else example_high"
  let ?d = "(dim_h example_high, dim_w example_high) \<noteq> (dim_h example_low, dim_w example_low)"
  let ?high' = "if ?d then bilinear ?hc (dim_h example_low, dim_w example_low) else ?hc"
  let ?w' = "if ?d \<and> \<not> False then bilinear ?w (dim_h example_low, dim_w example_low) else ?w"
  have low: "Inr example_low = (Inr example_low :: py_error + tensor4)" ..
  from gau_forward_amended[where m = example_gau and low_path = Inr and low = example_low
      and low_level = example_low and high_level = example_high and C_h = 1 and C_o = 1
      and pool = False and high_act = "\<lambda>v. v" and path_conv = ?p and level_conv = ?p
      and hc = ?hc and w = ?w and differ = ?d and high' = ?high' and w' = ?w',
      OF example_gau_def low]
  obtain out where
    o: "gau_forward example_gau example_low example_high = Inr out"
      "dim_b out = dim_b example_low" "dim_c out = 1" "dim_h out = dim_h example_low"
      "dim_w out = dim_w example_low"
      "\<forall>n < dim_b example_low. \<forall>c < 1. \<forall>y < dim_h example_low. \<forall>x < dim_w example_low.
              val out n c y x =
                val ?high' n c y x +
                val example_low n c y x * val ?w' n c (bidx (dim_h ?w') y) (bidx (dim_w ?w') x)"
    by (auto simp: example_dims)
  have "val out 0 0 0 1 = val ?high' 0 0 0 1 +
          val example_low 0 0 0 1 * val ?w' 0 0 (bidx (dim_h ?w') 0) (bidx (dim_w ?w') 1)"
    using o(6) by (simp add: example_dims)
  also have "\<dots> = 1 / 2"
    by (simp add: example_dims bilinear_def bidx_def ex_source map_tensor_def conv_out_def)
      (simp add: example_low_def example_high_def)
  finally have v: "val out 0 0 0 1 = 1 / 2" .
  show ?thesis
    using o(1-5) v by (auto simp: example_dims)
qed

end
